theory Spec2Isabelle
  imports Main
begin

section \<open>Values handled by the styles settings panel\<close>

text \<open>
  The panel of \<^verbatim>\<open>qSlicerSettingsStylesPanel.cxx\<close> is glue between Qt widgets, the
  application object and a settings registry. The model keeps every piece of state the
  source file touches in one record and turns each method into a function on that record.
  Strings are 8-bit character lists; a font is named by its description.
\<close>

type_synonym qfont = string

text \<open>A style object as \<^verbatim>\<open>QStyleFactory::create\<close> returns it, told apart by its object name.\<close>

datatype qstyle = QStyle string

datatype qpalette = StandardPalette qstyle | OtherPalette string

text \<open>The enumeration \<^verbatim>\<open>Qt::ToolButtonStyle\<close>.\<close>

datatype toolButtonStyle =
    ToolButtonIconOnly
  | ToolButtonTextOnly
  | ToolButtonTextBesideIcon
  | ToolButtonTextUnderIcon
  | ToolButtonFollowStyle

datatype qvariant = VBool bool | VFont qfont | VString string | VStringList "string list"

text \<open>The objects that \<^verbatim>\<open>init\<close> connects or binds: the widgets of the form and the panel \<^verbatim>\<open>q\<close>.\<close>

datatype qobject =
    ObjFontButton
  | ObjShowToolTipsCheckBox
  | ObjShowToolButtonTextCheckBox
  | ObjRestoreUICheckBox
  | ObjAdditionalStylePathMoreButton
  | ObjAdditionalStylePathsView
  | ObjStyleComboBox
  | ObjAddAdditionalStylePathButton
  | ObjRemoveAdditionalStylePathButton
  | ObjPanel

text \<open>The slots of the panel.\<close>

datatype slot =
    OnFontChanged
  | OnShowToolTipsToggled
  | OnShowToolButtonTextToggled
  | OnAdditionalStylePathsChanged
  | OnStyleChanged
  | OnAddStyleAdditionalPathClicked
  | OnRemoveStyleAdditionalPathClicked

text \<open>\<^verbatim>\<open>QObject::connect(sender, SIGNAL(signal), q, SLOT(slot))\<close>.\<close>

datatype connection = Connection qobject string slot

text \<open>\<^verbatim>\<open>ctkSettingsPanel::SettingOption\<close>, and the settings stores the source names.\<close>

datatype settingOption = OptionNone | OptionRequireRestart

datatype qsettings = RevisionUserSettings

text \<open>
  One call of \<^verbatim>\<open>registerProperty(key, object, property, signal, label, options, settings)\<close>.
  The last three arguments are optional in the source; \<open>extra\<close> is \<open>None\<close> for a call
  that passes four arguments.
\<close>

record property =
  object :: qobject
  objectProperty :: string
  propertySignal :: string
  extra :: "(string \<times> settingOption \<times> qsettings) option"

text \<open>
  What the panel does to the outside, in order: a line written with \<^verbatim>\<open>qWarning()\<close> (the
  items streamed into it), an emission of the panel's signal \<^verbatim>\<open>currentStyleChanged\<close>, and a
  direct read of a key of a settings store.
\<close>

datatype event =
    Warning "string list"
  | CurrentStyleChanged string
  | SettingsValueRead qsettings string

subsection \<open>The combo box\<close>

text \<open>
  A \<^verbatim>\<open>QComboBox\<close>: its item texts, its current index (\<open>-1\<close> when there is no current
  item) and the flag set by \<^verbatim>\<open>blockSignals\<close>.
\<close>

record qComboBox =
  items :: "string list"
  currentIndex :: int
  signalsBlocked :: bool

fun findTextFrom :: "string list \<Rightarrow> string \<Rightarrow> int \<Rightarrow> int" where
  "findTextFrom [] t i = -1"
| "findTextFrom (x # xs) t i = (if x = t then i else findTextFrom xs t (i + 1))"

text \<open>\<^verbatim>\<open>findText\<close> with its default flags: the index of the first item equal to the text, or \<open>-1\<close>.\<close>

definition findText :: "qComboBox \<Rightarrow> string \<Rightarrow> int" where
  "findText cb t = findTextFrom (items cb) t 0"

text \<open>\<^verbatim>\<open>itemText\<close>: the empty string for an index out of range.\<close>

definition itemText :: "qComboBox \<Rightarrow> int \<Rightarrow> string" where
  "itemText cb i = (if 0 \<le> i \<and> i < int (length (items cb)) then items cb ! nat i else [])"

definition currentText :: "qComboBox \<Rightarrow> string" where
  "currentText cb = itemText cb (currentIndex cb)"

text \<open>
  \<^verbatim>\<open>clear\<close> and \<^verbatim>\<open>addItem\<close> as changes of the widget alone. The first item added to an empty
  combo box becomes the current one. The panel calls both only with the signals of the combo
  box blocked, so that neither notifies a slot.
\<close>

definition clear :: "qComboBox \<Rightarrow> qComboBox" where
  "clear cb = cb\<lparr>items := [], currentIndex := -1\<rparr>"

definition addItem :: "qComboBox \<Rightarrow> string \<Rightarrow> qComboBox" where
  "addItem cb s =
     cb\<lparr>items := items cb @ [s],
        currentIndex := (if items cb = [] then 0 else currentIndex cb)\<rparr>"

subsection \<open>The state\<close>

text \<open>
  The widgets of the form with the property the panel uses of each, the two members of the
  private class, the registry and the connections kept by the base classes, the part of the
  application object the panel changes, and the trace of outside effects. A row of the
  directory list view holds a path as displayed and its absolute path.
\<close>

record state =
  FontButton :: qfont
  ShowToolTipsCheckBox :: bool
  ShowToolButtonTextCheckBox :: bool
  RestoreUICheckBox :: bool
  AdditionalStylePathMoreButton :: bool
  AdditionalStylePathsView :: "(string \<times> string) list"
  StyleComboBox :: qComboBox
  AdditionalPaths :: "string list"
  Properties :: "string \<rightharpoonup> property"
  connections :: "connection list"
  app_style :: qstyle
  app_eventFilters :: "qstyle list"
  app_palette :: qpalette
  app_font :: qfont
  app_toolTipsEnabled :: bool
  app_mainWindow :: "toolButtonStyle option"
  libraryPaths :: "string list"
  trace :: "event list"

text \<open>
  What the panel asks of its surroundings. \<open>styleFactoryKeys\<close> and \<open>styleFactoryCreate\<close> are
  \<^verbatim>\<open>QStyleFactory::keys()\<close> and \<^verbatim>\<open>QStyleFactory::create(name)\<close> under given library paths
  (\<open>None\<close> is the null pointer); \<open>revisionUserSettingsValue\<close> is
  \<^verbatim>\<open>revisionUserSettings()->value(key).toString()\<close>; \<open>getExistingDirectory\<close> is the answer of
  the file dialog opened at a directory, empty when the user cancels. The two mutators of the
  directory list view belong to another library: each gives the rows afterwards and whether
  \<^verbatim>\<open>directoryListChanged\<close> was emitted.
\<close>

record env =
  styleFactoryKeys :: "string list \<Rightarrow> string list"
  styleFactoryCreate :: "string list \<Rightarrow> string \<Rightarrow> qstyle option"
  revisionUserSettingsValue :: "string \<Rightarrow> string"
  getExistingDirectory :: "string \<Rightarrow> string"
  addDirectory :: "string \<Rightarrow> (string \<times> string) list \<Rightarrow> (string \<times> string) list \<times> bool"
  removeSelectedDirectories :: "(string \<times> string) list \<Rightarrow> (string \<times> string) list \<times> bool"

section \<open>The private class\<close>

text \<open>\<^verbatim>\<open>QtStyles\<close> is filled by the constructor and never assigned again.\<close>

definition QtStyles :: "string list" where
  "QtStyles =
     [''Windows'', ''WindowsCE'', ''WindowsXP'', ''WindowsVista'', ''Motif'', ''CDE'',
      ''Plastique'', ''Cleanlooks'', ''Macintosh'', ''Macintosh (aqua)'', ''GTK+'']"

text \<open>Case folding of one character: the letters A to Z get bit 5 set.\<close>

definition toLower :: "char \<Rightarrow> char" where
  "toLower c =
     (if 65 \<le> (of_char c :: nat) \<and> (of_char c :: nat) \<le> 90
      then (case c of Char b0 b1 b2 b3 b4 b5 b6 b7 \<Rightarrow> Char b0 b1 b2 b3 b4 True b6 b7)
      else c)"

text \<open>\<^verbatim>\<open>QStringList::contains(str, Qt::CaseInsensitive)\<close>.\<close>

definition containsCaseInsensitive :: "string list \<Rightarrow> string \<Rightarrow> bool" where
  "containsCaseInsensitive xs s = (\<exists>x \<in> set xs. map toLower x = map toLower s)"

definition isQtStyle :: "string \<Rightarrow> bool" where
  "isQtStyle styleName = containsCaseInsensitive QtStyles styleName"

definition styleIndex :: "state \<Rightarrow> string \<Rightarrow> int" where
  "styleIndex st styleName =
     (let styleIndex = findText (StyleComboBox st) styleName
      in if styleIndex = -1 then findText (StyleComboBox st) ''Slicer'' else styleIndex)"

section \<open>Selecting a style\<close>

text \<open>
  \<^verbatim>\<open>QComboBox::setCurrentIndex\<close> makes an index out of range the index \<open>-1\<close> and, when the
  current index changes and signals are not blocked, emits \<^verbatim>\<open>currentIndexChanged\<close> with the
  text of the new current item. \<^verbatim>\<open>init\<close> connects that signal to \<^verbatim>\<open>onStyleChanged\<close>, which
  may in turn call \<^verbatim>\<open>setCurrentStyle\<close>: the three functions are mutually recursive.
\<close>

definition styleNotFound :: "string \<Rightarrow> string list" where
  "styleNotFound newStyleName =
     [''Style named '', newStyleName, '' not found !'', '' Defaulting to Slicer's style.'']"

definition styleSignalConnected :: "state \<Rightarrow> bool" where
  "styleSignalConnected st =
     (Connection ObjStyleComboBox ''currentIndexChanged(QString)'' OnStyleChanged
        \<in> set (connections st))"

definition validIndex :: "qComboBox \<Rightarrow> int \<Rightarrow> int" where
  "validIndex cb i = (if 0 \<le> i \<and> i < int (length (items cb)) then i else -1)"

text \<open>
  The recursion ends: a failed lookup selects the index of "Slicer", and a second failed
  lookup finds that index already current, so that no further signal is emitted.
\<close>

definition awayFromSlicer :: "qComboBox \<Rightarrow> nat" where
  "awayFromSlicer cb =
     (if currentIndex cb = validIndex cb (findText cb ''Slicer'') then 0 else 1)"

definition setIndexCost :: "state \<Rightarrow> int \<Rightarrow> nat" where
  "setIndexCost st i =
     (let cb = StyleComboBox st
      in if validIndex cb i = currentIndex cb then 0
         else 4 * awayFromSlicer (cb\<lparr>currentIndex := validIndex cb i\<rparr>) + 3)"

definition callCost :: "env \<times> state \<times> string + env \<times> state \<times> string + env \<times> state \<times> int \<Rightarrow> nat" where
  "callCost c =
     (case c of
        Inl (e, st, n) \<Rightarrow> 4 * awayFromSlicer (StyleComboBox st) + 2
      | Inr (Inl (e, st, n)) \<Rightarrow> setIndexCost st (styleIndex st n) + 1
      | Inr (Inr (e, st, i)) \<Rightarrow> setIndexCost st i)"

function onStyleChanged :: "env \<Rightarrow> state \<Rightarrow> string \<Rightarrow> state"
  and setCurrentStyle :: "env \<Rightarrow> state \<Rightarrow> string \<Rightarrow> state"
  and StyleComboBox_setCurrentIndex :: "env \<Rightarrow> state \<Rightarrow> int \<Rightarrow> state"
where
  "onStyleChanged e st newStyleName =
     (let st1 = st\<lparr>app_eventFilters := removeAll (app_style st) (app_eventFilters st)\<rparr>
      in case styleFactoryCreate e (libraryPaths st1) newStyleName of
           None \<Rightarrow>
             setCurrentStyle e
               (st1\<lparr>trace := trace st1 @ [Warning (styleNotFound newStyleName)]\<rparr>) ''Slicer''
         | Some newStyle \<Rightarrow>
             st1\<lparr>app_style := newStyle,
                 app_eventFilters := newStyle # removeAll newStyle (app_eventFilters st1),
                 app_palette := StandardPalette newStyle,
                 trace := trace st1 @ [CurrentStyleChanged newStyleName]\<rparr>)"
| "setCurrentStyle e st newStyleName =
     StyleComboBox_setCurrentIndex e st (styleIndex st newStyleName)"
| "StyleComboBox_setCurrentIndex e st index =
     (let cb = StyleComboBox st;
          newIndex = validIndex cb index;
          st' = st\<lparr>StyleComboBox := cb\<lparr>currentIndex := newIndex\<rparr>\<rparr>
      in if newIndex \<noteq> currentIndex cb \<and> \<not> signalsBlocked cb \<and> styleSignalConnected st
         then onStyleChanged e st' (itemText (StyleComboBox st') newIndex)
         else st')"
  by pat_completeness auto

termination
  apply (relation "measure callCost")
     apply simp
    apply (simp add: callCost_def setIndexCost_def styleIndex_def awayFromSlicer_def
      findText_def validIndex_def Let_def)
   apply (simp add: callCost_def)
  apply (simp add: callCost_def setIndexCost_def awayFromSlicer_def validIndex_def Let_def)
  done

declare onStyleChanged.simps [simp del]
declare setCurrentStyle.simps [simp del]
declare StyleComboBox_setCurrentIndex.simps [simp del]


section \<open>Populating the combo box\<close>

definition populateStyles :: "env \<Rightarrow> state \<Rightarrow> state" where
  "populateStyles e st =
     (let currentStyle = currentText (StyleComboBox st);
          wasBlocking = signalsBlocked (StyleComboBox st);
          cb1 = clear ((StyleComboBox st)\<lparr>signalsBlocked := True\<rparr>);
          cb2 = foldl (\<lambda>cb style. if \<not> isQtStyle style then addItem cb style else cb)
                  cb1 (styleFactoryKeys e (libraryPaths st));
          st2 = st\<lparr>StyleComboBox := cb2\<rparr>;
          currentStyleIndex = styleIndex st2 currentStyle;
          st3 = st2\<lparr>StyleComboBox := cb2\<lparr>signalsBlocked := wasBlocking\<rparr>\<rparr>
      in StyleComboBox_setCurrentIndex e st3 currentStyleIndex)"

section \<open>The additional style paths\<close>

text \<open>
  \<^verbatim>\<open>QCoreApplication::addLibraryPath\<close> puts a path in front of the library paths and changes
  nothing when the path is empty or already listed; \<^verbatim>\<open>removeLibraryPath\<close> takes a path out
  and changes nothing when the path is empty.
\<close>

definition addLibraryPath :: "string \<Rightarrow> string list \<Rightarrow> string list" where
  "addLibraryPath path libs = (if path = [] \<or> path \<in> set libs then libs else path # libs)"

definition removeLibraryPath :: "string \<Rightarrow> string list \<Rightarrow> string list" where
  "removeLibraryPath path libs = (if path = [] then libs else removeAll path libs)"

text \<open>\<^verbatim>\<open>directoryList(absolutePath)\<close> of the directory list view.\<close>

definition directoryList :: "bool \<Rightarrow> (string \<times> string) list \<Rightarrow> string list" where
  "directoryList absolutePath rows = map (if absolutePath then snd else fst) rows"

definition onAdditionalStylePathsChanged :: "env \<Rightarrow> state \<Rightarrow> state" where
  "onAdditionalStylePathsChanged e st =
     (let libs1 = foldl (\<lambda>libs path. removeLibraryPath path libs)
                    (libraryPaths st) (AdditionalPaths st);
          newPaths = directoryList True (AdditionalStylePathsView st);
          libs2 = foldl (\<lambda>libs path. addLibraryPath path libs) libs1 newPaths
      in populateStyles e (st\<lparr>AdditionalPaths := newPaths, libraryPaths := libs2\<rparr>))"

text \<open>
  A change of the rows of the directory list view by one of its mutators; the slot runs when
  the view emits \<^verbatim>\<open>directoryListChanged\<close> and \<^verbatim>\<open>init\<close> has connected it.
\<close>

definition AdditionalStylePathsView_changed ::
  "env \<Rightarrow> state \<Rightarrow> (string \<times> string) list \<times> bool \<Rightarrow> state" where
  "AdditionalStylePathsView_changed e st r =
     (let st' = st\<lparr>AdditionalStylePathsView := fst r\<rparr>
      in if snd r \<and> Connection ObjAdditionalStylePathsView ''directoryListChanged()''
                      OnAdditionalStylePathsChanged \<in> set (connections st)
         then onAdditionalStylePathsChanged e st' else st')"

definition onAddStyleAdditionalPathClicked :: "env \<Rightarrow> state \<Rightarrow> state" where
  "onAddStyleAdditionalPathClicked e st =
     (let extensionInstallPath = revisionUserSettingsValue e ''Extensions/InstallPath'';
          st1 = st\<lparr>trace := trace st
                   @ [SettingsValueRead RevisionUserSettings ''Extensions/InstallPath'']\<rparr>;
          path = getExistingDirectory e extensionInstallPath
      in if path = [] then st1
         else AdditionalStylePathsView_changed e st1
                (addDirectory e path (AdditionalStylePathsView st1)))"


section \<open>The remaining public methods\<close>

definition currentStyle :: "state \<Rightarrow> string" where
  "currentStyle st = currentText (StyleComboBox st)"


definition onShowToolTipsToggled :: "bool \<Rightarrow> state \<Rightarrow> state" where
  "onShowToolTipsToggled disable st = st\<lparr>app_toolTipsEnabled := \<not> disable\<rparr>"


text \<open>
  The check box of the tooltip setting changing to a new value: it emits \<^verbatim>\<open>toggled\<close> with
  that value, which runs the slot once \<^verbatim>\<open>init\<close> has connected it.
\<close>

definition ShowToolTipsCheckBox_toggled :: "bool \<Rightarrow> state \<Rightarrow> state" where
  "ShowToolTipsCheckBox_toggled checked st =
     (let st' = st\<lparr>ShowToolTipsCheckBox := checked\<rparr>
      in if Connection ObjShowToolTipsCheckBox ''toggled(bool)'' OnShowToolTipsToggled
              \<in> set (connections st)
         then onShowToolTipsToggled checked st' else st')"

section \<open>Initialisation\<close>

definition connect :: "qobject \<Rightarrow> string \<Rightarrow> slot \<Rightarrow> state \<Rightarrow> state" where
  "connect sender signal receiver st =
     st\<lparr>connections := connections st @ [Connection sender signal receiver]\<rparr>"

text \<open>\<^verbatim>\<open>ctkSettingsPanel::registerProperty\<close> files the binding under its key.\<close>

definition registerProperty ::
  "string \<Rightarrow> qobject \<Rightarrow> string \<Rightarrow> string \<Rightarrow> (string \<times> settingOption \<times> qsettings) option
     \<Rightarrow> state \<Rightarrow> state" where
  "registerProperty key obj prop signal ex st =
     st\<lparr>Properties := (Properties st)(key \<mapsto>
          \<lparr>object = obj, objectProperty = prop, propertySignal = signal, extra = ex\<rparr>)\<rparr>"

text \<open>\<^verbatim>\<open>init\<close>, on the state in which \<^verbatim>\<open>setupUi\<close> has created the widgets.\<close>

definition init :: "env \<Rightarrow> state \<Rightarrow> state" where
  "init e st =
     (let s1 = connect ObjFontButton ''currentFontChanged(QFont)'' OnFontChanged st;
          s2 = connect ObjShowToolTipsCheckBox ''toggled(bool)'' OnShowToolTipsToggled s1;
          s3 = connect ObjShowToolButtonTextCheckBox ''toggled(bool)''
                 OnShowToolButtonTextToggled s2;
          s4 = registerProperty ''no-tooltip'' ObjShowToolTipsCheckBox ''checked''
                 ''toggled(bool)'' None s3;
          s5 = registerProperty ''font'' ObjFontButton ''currentFont''
                 ''currentFontChanged(QFont)'' None s4;
          s6 = registerProperty ''MainWindow/ShowToolButtonText'' ObjShowToolButtonTextCheckBox
                 ''checked'' ''toggled(bool)'' None s5;
          s7 = registerProperty ''MainWindow/RestoreGeometry'' ObjRestoreUICheckBox
                 ''checked'' ''toggled(bool)'' None s6;
          s8 = s7\<lparr>AdditionalStylePathMoreButton := False\<rparr>;
          s9 = connect ObjAdditionalStylePathsView ''directoryListChanged()''
                 OnAdditionalStylePathsChanged s8;
          s10 = registerProperty ''Styles/AdditionalPaths'' ObjAdditionalStylePathsView
                  ''directoryList'' ''directoryListChanged()''
                  (Some (''Additional style paths'', OptionRequireRestart, RevisionUserSettings))
                  s9;
          s11 = populateStyles e s10;
          s12 = setCurrentStyle e s11 ''Slicer'';
          s13 = connect ObjStyleComboBox ''currentIndexChanged(QString)'' OnStyleChanged s12;
          s14 = registerProperty ''Styles/Style'' ObjPanel ''currentStyle''
                  ''currentStyleChanged(QString)''
                  (Some (''Current style'', OptionNone, RevisionUserSettings)) s13;
          s15 = connect ObjAddAdditionalStylePathButton ''clicked()''
                  OnAddStyleAdditionalPathClicked s14
      in connect ObjRemoveAdditionalStylePathButton ''clicked()''
           OnRemoveStyleAdditionalPathClicked s15)"

text \<open>
  The constructor: the members of the private class and the bookkeeping of the base classes
  start empty, then \<^verbatim>\<open>init\<close> runs.
\<close>

definition qSlicerSettingsStylesPanel :: "env \<Rightarrow> state \<Rightarrow> state" where
  "qSlicerSettingsStylesPanel e st =
     init e (st\<lparr>AdditionalPaths := [], Properties := Map.empty, connections := []\<rparr>)"

text \<open>
  Reading a bound property of an object, and the value a registered key stands for: the
  settings panel keeps the stored value of a key equal to the property bound to it.
\<close>

definition propertyValue :: "state \<Rightarrow> qobject \<Rightarrow> string \<Rightarrow> qvariant option" where
  "propertyValue st obj prop =
     (if obj = ObjShowToolTipsCheckBox \<and> prop = ''checked''
        then Some (VBool (ShowToolTipsCheckBox st))
      else if obj = ObjFontButton \<and> prop = ''currentFont''
        then Some (VFont (FontButton st))
      else if obj = ObjShowToolButtonTextCheckBox \<and> prop = ''checked''
        then Some (VBool (ShowToolButtonTextCheckBox st))
      else if obj = ObjRestoreUICheckBox \<and> prop = ''checked''
        then Some (VBool (RestoreUICheckBox st))
      else if obj = ObjAdditionalStylePathsView \<and> prop = ''directoryList''
        then Some (VStringList (directoryList False (AdditionalStylePathsView st)))
      else if obj = ObjPanel \<and> prop = ''currentStyle''
        then Some (VString (currentStyle st))
      else None)"

definition settingValue :: "state \<Rightarrow> string \<Rightarrow> qvariant option" where
  "settingValue st key =
     (case Properties st key of
        None \<Rightarrow> None
      | Some p \<Rightarrow> propertyValue st (object p) (objectProperty p))"



text \<open>The events an operation adds to the trace.\<close>

definition newEvents :: "state \<Rightarrow> state \<Rightarrow> event list" where
  "newEvents st st' = drop (length (trace st)) (trace st')"


section \<open>Predicates of the proofs\<close>

text \<open>
  The events the style selection can add under given library paths: the warning for a name
  that could not be created, and the signal for a name that could.
\<close>

definition styleEvent :: "env \<Rightarrow> string list \<Rightarrow> event \<Rightarrow> bool" where
  "styleEvent e libs ev =
     (case ev of
        Warning w \<Rightarrow> (\<exists>n. w = styleNotFound n \<and> styleFactoryCreate e libs n = None)
      | CurrentStyleChanged n \<Rightarrow> styleFactoryCreate e libs n \<noteq> None
      | SettingsValueRead s k \<Rightarrow> False)"

text \<open>
  What the style selection leaves alone: everything but the current index of the combo box,
  the style, event filters and palette of the application, and the trace, which only grows.
\<close>

definition styleFrame :: "env \<Rightarrow> state \<Rightarrow> state \<Rightarrow> bool" where
  "styleFrame e st st' \<longleftrightarrow>
     FontButton st' = FontButton st \<and>
     ShowToolTipsCheckBox st' = ShowToolTipsCheckBox st \<and>
     ShowToolButtonTextCheckBox st' = ShowToolButtonTextCheckBox st \<and>
     RestoreUICheckBox st' = RestoreUICheckBox st \<and>
     AdditionalStylePathMoreButton st' = AdditionalStylePathMoreButton st \<and>
     AdditionalStylePathsView st' = AdditionalStylePathsView st \<and>
     items (StyleComboBox st') = items (StyleComboBox st) \<and>
     signalsBlocked (StyleComboBox st') = signalsBlocked (StyleComboBox st) \<and>
     AdditionalPaths st' = AdditionalPaths st \<and>
     Properties st' = Properties st \<and>
     connections st' = connections st \<and>
     app_font st' = app_font st \<and>
     app_toolTipsEnabled st' = app_toolTipsEnabled st \<and>
     app_mainWindow st' = app_mainWindow st \<and>
     libraryPaths st' = libraryPaths st \<and>
     (\<exists>tr. trace st' = trace st @ tr \<and> (\<forall>ev \<in> set tr. styleEvent e (libraryPaths st) ev))"

text \<open>The index of "Slicer", where a failed lookup leaves the combo box.\<close>

definition slicerIndex :: "state \<Rightarrow> int" where
  "slicerIndex st = validIndex (StyleComboBox st) (findText (StyleComboBox st) ''Slicer'')"

text \<open>Whether a change of the current index reaches the slot.\<close>

definition styleSignalDelivered :: "state \<Rightarrow> bool" where
  "styleSignalDelivered st \<longleftrightarrow> \<not> signalsBlocked (StyleComboBox st) \<and> styleSignalConnected st"

text \<open>A warning of an operation is the one of a style that could not be created.\<close>

definition operationEvent :: "env \<Rightarrow> string list \<Rightarrow> event \<Rightarrow> bool" where
  "operationEvent e libs ev =
     (case ev of
        Warning w \<Rightarrow> (\<exists>n. w = styleNotFound n \<and> styleFactoryCreate e libs n = None)
      | CurrentStyleChanged n \<Rightarrow> True
      | SettingsValueRead s k \<Rightarrow> True)"

text \<open>
  The combo box as \<^verbatim>\<open>populateStyles\<close> fills it, before it selects the previous style
  again, and the growth of the trace by an operation.
\<close>

definition populatedBox :: "env \<Rightarrow> state \<Rightarrow> qComboBox" where
  "populatedBox e st =
     (foldl (\<lambda>cb style. if \<not> isQtStyle style then addItem cb style else cb)
        (clear ((StyleComboBox st)\<lparr>signalsBlocked := True\<rparr>))
        (styleFactoryKeys e (libraryPaths st)))
     \<lparr>signalsBlocked := signalsBlocked (StyleComboBox st)\<rparr>"

definition traceExtends :: "env \<Rightarrow> state \<Rightarrow> state \<Rightarrow> bool" where
  "traceExtends e st st' \<longleftrightarrow>
     (\<exists>tr. trace st' = trace st @ tr
        \<and> (\<forall>ev \<in> set tr. operationEvent e (libraryPaths st') ev))"

section \<open>An installation to compute with\<close>

text \<open>
  A style factory with two built-in styles, the plugin of the application under
  \<^verbatim>\<open>/slicer/plugins\<close>, whose style "Dark" is listed but cannot be created, and one more plugin
  under \<^verbatim>\<open>/extra\<close>. The file dialog of this installation is always cancelled.
\<close>

definition demoKeys :: "string list \<Rightarrow> string list" where
  "demoKeys libs =
     [''Windows'', ''Fusion'']
     @ (if ''/slicer/plugins'' \<in> set libs then [''Slicer'', ''Dark''] else [])
     @ (if ''/extra'' \<in> set libs then [''Night''] else [])"

definition demoEnv :: env where
  "demoEnv =
     \<lparr>styleFactoryKeys = demoKeys,
      styleFactoryCreate =
        (\<lambda>libs n. let k = map toLower n
                  in if k \<in> set (map (map toLower) (demoKeys libs)) \<and> k \<noteq> ''dark''
                     then Some (QStyle k) else None),
      revisionUserSettingsValue =
        (\<lambda>k. if k = ''Extensions/InstallPath'' then ''/home/user/Extensions'' else []),
      getExistingDirectory = (\<lambda>start. []),
      addDirectory =
        (\<lambda>path rows. if path \<in> set (map snd rows) then (rows, False)
                      else (rows @ [(path, path)], True)),
      removeSelectedDirectories = (\<lambda>rows. ([], rows \<noteq> []))\<rparr>"

text \<open>The widgets as the form creates them, and the application before the panel exists.\<close>

definition blankState :: state where
  "blankState =
     \<lparr>FontButton = ''Sans'',
      ShowToolTipsCheckBox = False,
      ShowToolButtonTextCheckBox = False,
      RestoreUICheckBox = False,
      AdditionalStylePathMoreButton = True,
      AdditionalStylePathsView = [],
      StyleComboBox = \<lparr>items = [], currentIndex = -1, signalsBlocked = False\<rparr>,
      AdditionalPaths = [],
      Properties = Map.empty,
      connections = [],
      app_style = QStyle ''fusion'',
      app_eventFilters = [],
      app_palette = OtherPalette ''system'',
      app_font = ''Sans'',
      app_toolTipsEnabled = True,
      app_mainWindow = Some ToolButtonIconOnly,
      libraryPaths = [''/slicer/plugins''],
      trace = []\<rparr>"

text \<open>
  The panel constructed there; the same panel with "Fusion" selected; the panel constructed
  where the plugin of the application is not on the library paths; and the panel after the
  user added \<^verbatim>\<open>/extra\<close>, selected "Night" and took the path out of the view again.
\<close>

definition demoPanel :: state where
  "demoPanel = qSlicerSettingsStylesPanel demoEnv blankState"

definition fusionPanel :: state where
  "fusionPanel = setCurrentStyle demoEnv demoPanel ''Fusion''"

definition barePanel :: state where
  "barePanel = qSlicerSettingsStylesPanel demoEnv (blankState\<lparr>libraryPaths := []\<rparr>)"


section \<open>Properties of the operations\<close>

subsection \<open>Looking up a text\<close>

lemma findTextFrom_absent: "t \<notin> set xs \<Longrightarrow> findTextFrom xs t i = -1"
  by (induction xs arbitrary: i) auto

lemma findTextFrom_present:
  "t \<in> set xs \<Longrightarrow>
     i \<le> findTextFrom xs t i \<and> findTextFrom xs t i < i + int (length xs)
     \<and> xs ! nat (findTextFrom xs t i - i) = t"
proof (induction xs arbitrary: i)
  case Nil
  then show ?case by simp
next
  case (Cons x xs)
  show ?case
  proof (cases "x = t")
    case True
    then show ?thesis by simp
  next
    case False
    with Cons.prems have "t \<in> set xs" by simp
    from Cons.IH [OF this, of "i + 1"]
    have b: "i + 1 \<le> findTextFrom xs t (i + 1)"
      "findTextFrom xs t (i + 1) < i + 1 + int (length xs)"
      "xs ! nat (findTextFrom xs t (i + 1) - (i + 1)) = t"
      by simp_all
    have "nat (findTextFrom xs t (i + 1) - i) = Suc (nat (findTextFrom xs t (i + 1) - (i + 1)))"
      using b(1) by linarith
    then show ?thesis using False b by simp
  qed
qed

lemma findText_present:
  assumes "t \<in> set (items cb)"
  shows "0 \<le> findText cb t" and "findText cb t < int (length (items cb))"
    and "items cb ! nat (findText cb t) = t"
  using findTextFrom_present [OF assms, of 0] by (simp_all add: findText_def)

lemma findText_absent: "t \<notin> set (items cb) \<Longrightarrow> findText cb t = -1"
  by (simp add: findText_def findTextFrom_absent)

lemma itemText_found:
  "t \<in> set (items cb) \<Longrightarrow> itemText cb (validIndex cb (findText cb t)) = t"
  using findText_present [of t cb] by (simp add: itemText_def validIndex_def)

lemma itemText_not_found:
  "t \<notin> set (items cb) \<Longrightarrow> itemText cb (validIndex cb (findText cb t)) = []"
  by (simp add: findText_absent itemText_def validIndex_def)

lemma styleIndex_Slicer: "styleIndex st ''Slicer'' = findText (StyleComboBox st) ''Slicer''"
  by (simp add: styleIndex_def)

lemma styleIndex_present:
  "t \<in> set (items (StyleComboBox st)) \<Longrightarrow> styleIndex st t = findText (StyleComboBox st) t"
  using findText_present(1) [of t "StyleComboBox st"] by (simp add: styleIndex_def Let_def)

lemma styleIndex_absent:
  "t \<notin> set (items (StyleComboBox st)) \<Longrightarrow>
     styleIndex st t = findText (StyleComboBox st) ''Slicer''"
  by (simp add: styleIndex_def findText_absent)

subsection \<open>What the selection of a style leaves alone\<close>

lemma styleFrame_refl: "styleFrame e st st"
  by (simp add: styleFrame_def)

lemma styleFrame_trans:
  assumes "styleFrame e a b" and "styleFrame e b c"
  shows "styleFrame e a c"
proof -
  from assms(1) obtain t1 where t1: "trace b = trace a @ t1"
    "\<forall>ev \<in> set t1. styleEvent e (libraryPaths a) ev" and lb: "libraryPaths b = libraryPaths a"
    by (auto simp: styleFrame_def)
  from assms(2) obtain t2 where t2: "trace c = trace b @ t2"
    "\<forall>ev \<in> set t2. styleEvent e (libraryPaths b) ev"
    by (auto simp: styleFrame_def)
  have "trace c = trace a @ (t1 @ t2) \<and> (\<forall>ev \<in> set (t1 @ t2). styleEvent e (libraryPaths a) ev)"
    using t1 t2 lb by auto
  then have "\<exists>tr. trace c = trace a @ tr \<and> (\<forall>ev \<in> set tr. styleEvent e (libraryPaths a) ev)"
    by blast
  then show ?thesis using assms by (simp add: styleFrame_def)
qed

lemma itemText_currentIndex [simp]: "itemText (cb\<lparr>currentIndex := j\<rparr>) i = itemText cb i"
  by (simp add: itemText_def)

lemma onStyleChanged_not_found:
  "styleFactoryCreate e (libraryPaths st) n = None \<Longrightarrow>
     onStyleChanged e st n =
       setCurrentStyle e
         (st\<lparr>app_eventFilters := removeAll (app_style st) (app_eventFilters st),
             trace := trace st @ [Warning (styleNotFound n)]\<rparr>) ''Slicer''"
  by (simp add: onStyleChanged.simps)

lemma onStyleChanged_found:
  "styleFactoryCreate e (libraryPaths st) n = Some s \<Longrightarrow>
     onStyleChanged e st n =
       st\<lparr>app_eventFilters := s # removeAll s (removeAll (app_style st) (app_eventFilters st)),
          app_style := s, app_palette := StandardPalette s,
          trace := trace st @ [CurrentStyleChanged n]\<rparr>"
  by (simp add: onStyleChanged.simps)

lemma setCurrentIndex_delivered:
  "validIndex (StyleComboBox st) i \<noteq> currentIndex (StyleComboBox st) \<Longrightarrow>
   styleSignalDelivered st \<Longrightarrow>
     StyleComboBox_setCurrentIndex e st i =
       onStyleChanged e
         (st\<lparr>StyleComboBox := (StyleComboBox st)\<lparr>currentIndex := validIndex (StyleComboBox st) i\<rparr>\<rparr>)
         (itemText (StyleComboBox st) (validIndex (StyleComboBox st) i))"
  by (simp add: StyleComboBox_setCurrentIndex.simps styleSignalDelivered_def Let_def)

lemma setCurrentIndex_silent:
  "\<not> (validIndex (StyleComboBox st) i \<noteq> currentIndex (StyleComboBox st)
       \<and> styleSignalDelivered st) \<Longrightarrow>
     StyleComboBox_setCurrentIndex e st i =
       st\<lparr>StyleComboBox := (StyleComboBox st)\<lparr>currentIndex := validIndex (StyleComboBox st) i\<rparr>\<rparr>"
  by (auto simp add: StyleComboBox_setCurrentIndex.simps styleSignalDelivered_def Let_def)

lemma styleFrame_all:
  "styleFrame e st (onStyleChanged e st n)"
  "styleFrame e st (setCurrentStyle e st m)"
  "styleFrame e st (StyleComboBox_setCurrentIndex e st i)"
proof (induction e st n and e st m and e st i
    rule: onStyleChanged_setCurrentStyle_StyleComboBox_setCurrentIndex.induct)
  case (1 e st newStyleName)
  show ?case
  proof (cases "styleFactoryCreate e (libraryPaths st) newStyleName")
    case None
    let ?stw = "st\<lparr>app_eventFilters := removeAll (app_style st) (app_eventFilters st),
                   trace := trace st @ [Warning (styleNotFound newStyleName)]\<rparr>"
    have a: "styleFrame e st ?stw"
      using None by (auto simp: styleFrame_def styleEvent_def)
    have b: "styleFrame e ?stw (setCurrentStyle e ?stw ''Slicer'')"
      using 1 None by simp
    show ?thesis
      using styleFrame_trans [OF a b] by (simp add: onStyleChanged_not_found [OF None])
  next
    case (Some s)
    then show ?thesis
      by (simp add: onStyleChanged_found styleFrame_def styleEvent_def)
  qed
next
  case (2 e st newStyleName)
  then show ?case by (simp add: setCurrentStyle.simps)
next
  case (3 e st index)
  let ?cb = "StyleComboBox st"
  let ?st' = "st\<lparr>StyleComboBox := ?cb\<lparr>currentIndex := validIndex ?cb index\<rparr>\<rparr>"
  have a: "styleFrame e st ?st'" by (simp add: styleFrame_def)
  show ?case
  proof (cases "validIndex ?cb index \<noteq> currentIndex ?cb \<and> styleSignalDelivered st")
    case True
    then have "styleFrame e ?st' (onStyleChanged e ?st' (itemText (StyleComboBox ?st') (validIndex ?cb index)))"
      using 3 by (simp add: styleSignalDelivered_def)
    then have b: "styleFrame e ?st' (onStyleChanged e ?st' (itemText ?cb (validIndex ?cb index)))"
      by simp
    show ?thesis
      using styleFrame_trans [OF a b] True by (simp add: setCurrentIndex_delivered)
  next
    case False
    then show ?thesis using a by (simp add: setCurrentIndex_silent)
  qed
qed

lemma slicerIndex_update [simp]:
  "slicerIndex (st\<lparr>StyleComboBox := (StyleComboBox st)\<lparr>currentIndex := j\<rparr>\<rparr>) = slicerIndex st"
  "slicerIndex (st\<lparr>app_eventFilters := f, trace := t\<rparr>) = slicerIndex st"
  by (simp_all add: slicerIndex_def validIndex_def findText_def)

lemma finalIndex:
  "currentIndex (StyleComboBox (onStyleChanged e st n)) =
     (if styleFactoryCreate e (libraryPaths st) n = None then slicerIndex st
      else currentIndex (StyleComboBox st))"
  "currentIndex (StyleComboBox (setCurrentStyle e st m)) =
     (let j = validIndex (StyleComboBox st) (styleIndex st m)
      in if j \<noteq> currentIndex (StyleComboBox st) \<and> styleSignalDelivered st
            \<and> styleFactoryCreate e (libraryPaths st) (itemText (StyleComboBox st) j) = None
         then slicerIndex st else j)"
  "currentIndex (StyleComboBox (StyleComboBox_setCurrentIndex e st i)) =
     (let j = validIndex (StyleComboBox st) i
      in if j \<noteq> currentIndex (StyleComboBox st) \<and> styleSignalDelivered st
            \<and> styleFactoryCreate e (libraryPaths st) (itemText (StyleComboBox st) j) = None
         then slicerIndex st else j)"
proof (induction e st n and e st m and e st i
    rule: onStyleChanged_setCurrentStyle_StyleComboBox_setCurrentIndex.induct)
  case (1 e st newStyleName)
  show ?case
  proof (cases "styleFactoryCreate e (libraryPaths st) newStyleName")
    case None
    let ?stw = "st\<lparr>app_eventFilters := removeAll (app_style st) (app_eventFilters st),
                   trace := trace st @ [Warning (styleNotFound newStyleName)]\<rparr>"
    have "currentIndex (StyleComboBox (setCurrentStyle e ?stw ''Slicer'')) = slicerIndex ?stw"
      using 1 None by (simp add: Let_def styleIndex_Slicer slicerIndex_def)
    then show ?thesis using None by (simp add: onStyleChanged_not_found)
  next
    case (Some s)
    then show ?thesis by (simp add: onStyleChanged_found)
  qed
next
  case (2 e st newStyleName)
  then show ?case by (simp add: setCurrentStyle.simps)
next
  case (3 e st index)
  let ?cb = "StyleComboBox st"
  let ?j = "validIndex ?cb index"
  let ?st' = "st\<lparr>StyleComboBox := ?cb\<lparr>currentIndex := ?j\<rparr>\<rparr>"
  show ?case
  proof (cases "?j \<noteq> currentIndex ?cb \<and> styleSignalDelivered st")
    case True
    then have "currentIndex (StyleComboBox (onStyleChanged e ?st' (itemText (StyleComboBox ?st') ?j))) =
        (if styleFactoryCreate e (libraryPaths ?st') (itemText (StyleComboBox ?st') ?j) = None
         then slicerIndex ?st' else currentIndex (StyleComboBox ?st'))"
      using 3 by (simp add: styleSignalDelivered_def)
    then have "currentIndex (StyleComboBox (onStyleChanged e ?st' (itemText ?cb ?j))) =
        (if styleFactoryCreate e (libraryPaths st) (itemText ?cb ?j) = None
         then slicerIndex st else ?j)"
      by simp
    then show ?thesis using True by (simp add: setCurrentIndex_delivered Let_def)
  next
    case False
    then show ?thesis by (auto simp add: setCurrentIndex_silent Let_def)
  qed
qed


subsection \<open>Populating the combo box\<close>


lemma foldl_addItem_blocked:
  "signalsBlocked (foldl (\<lambda>cb style. if \<not> P style then addItem cb style else cb) cb ks) =
     signalsBlocked cb"
  by (induction ks arbitrary: cb) (simp_all add: addItem_def)



lemma populateStyles_eq:
  "populateStyles e st =
     StyleComboBox_setCurrentIndex e (st\<lparr>StyleComboBox := populatedBox e st\<rparr>)
       (styleIndex (st\<lparr>StyleComboBox := populatedBox e st\<rparr>) (currentText (StyleComboBox st)))"
  by (simp add: populateStyles_def populatedBox_def Let_def styleIndex_def findText_def)

lemma populateStyles_frame:
  "styleFrame e (st\<lparr>StyleComboBox := populatedBox e st\<rparr>) (populateStyles e st)"
  by (simp add: populateStyles_eq styleFrame_all(3))


subsection \<open>The library paths\<close>



subsection \<open>The trace of an operation\<close>

lemma styleEvent_operationEvent: "styleEvent e libs ev \<Longrightarrow> operationEvent e libs ev"
  by (cases ev) (simp_all add: styleEvent_def operationEvent_def)

lemma traceExtends_styleFrame:
  assumes "styleFrame e st st'"
  shows "traceExtends e st st'"
proof -
  from assms obtain tr where "trace st' = trace st @ tr"
    "\<forall>ev \<in> set tr. styleEvent e (libraryPaths st) ev" and "libraryPaths st' = libraryPaths st"
    by (auto simp: styleFrame_def)
  then show ?thesis
    unfolding traceExtends_def using styleEvent_operationEvent by auto
qed

lemma traceExtends_populateStyles: "traceExtends e st (populateStyles e st)"
  using traceExtends_styleFrame [OF populateStyles_frame [of e st]]
  by (simp add: traceExtends_def)

lemma libraryPaths_populateStyles: "libraryPaths (populateStyles e st) = libraryPaths st"
  using populateStyles_frame [of e st] by (simp add: styleFrame_def)

lemma traceExtends_same_trace:
  "traceExtends e st0 r \<Longrightarrow> trace st0 = trace st \<Longrightarrow> traceExtends e st r"
  by (simp add: traceExtends_def)

lemma traceExtends_onAdditionalStylePathsChanged:
  "traceExtends e st (onAdditionalStylePathsChanged e st)"
  unfolding onAdditionalStylePathsChanged_def Let_def
  by (rule traceExtends_same_trace [OF traceExtends_populateStyles]) simp

lemma traceExtends_view_changed:
  "traceExtends e st (AdditionalStylePathsView_changed e st r)"
proof (cases "snd r \<and> Connection ObjAdditionalStylePathsView ''directoryListChanged()''
                      OnAdditionalStylePathsChanged \<in> set (connections st)")
  case True
  have "traceExtends e st
          (onAdditionalStylePathsChanged e (st\<lparr>AdditionalStylePathsView := fst r\<rparr>))"
    by (rule traceExtends_same_trace [OF traceExtends_onAdditionalStylePathsChanged]) simp
  then show ?thesis using True by (simp add: AdditionalStylePathsView_changed_def)
next
  case False
  then show ?thesis by (auto simp add: AdditionalStylePathsView_changed_def traceExtends_def)
qed




subsection \<open>The current style after a selection\<close>

lemma newEvents_append: "trace st' = trace st @ tr \<Longrightarrow> newEvents st st' = tr"
  by (simp add: newEvents_def)

lemma itemText_same_items: "items cb' = items cb \<Longrightarrow> itemText cb' i = itemText cb i"
  by (simp add: itemText_def)

lemma currentStyle_by_index:
  assumes "styleFrame e st r"
  shows "currentStyle r = itemText (StyleComboBox st) (currentIndex (StyleComboBox r))"
proof -
  have "items (StyleComboBox r) = items (StyleComboBox st)"
    using assms by (simp add: styleFrame_def)
  from itemText_same_items [OF this] show ?thesis
    by (simp add: currentStyle_def currentText_def)
qed

lemma currentStyle_setCurrentStyle_creatable:
  assumes "s \<in> set (items (StyleComboBox st))"
    and "styleFactoryCreate e (libraryPaths st) s \<noteq> None"
  shows "currentStyle (setCurrentStyle e st s) = s"
proof -
  let ?cb = "StyleComboBox st"
  let ?j = "validIndex ?cb (styleIndex st s)"
  have t: "itemText ?cb ?j = s"
    using assms(1) by (simp add: styleIndex_present itemText_found)
  have "currentIndex (StyleComboBox (setCurrentStyle e st s)) = ?j"
    using assms(2) t by (auto simp add: finalIndex(2) Let_def)
  then show ?thesis
    using t by (simp add: currentStyle_by_index [OF styleFrame_all(2)])
qed

lemma currentStyle_setCurrentStyle_absent:
  assumes "s \<notin> set (items (StyleComboBox st))"
  shows "currentStyle (setCurrentStyle e st s) = itemText (StyleComboBox st) (slicerIndex st)"
proof -
  have "validIndex (StyleComboBox st) (styleIndex st s) = slicerIndex st"
    using assms by (simp add: styleIndex_absent slicerIndex_def)
  then have "currentIndex (StyleComboBox (setCurrentStyle e st s)) = slicerIndex st"
    by (simp add: finalIndex(2) Let_def)
  then show ?thesis
    by (simp add: currentStyle_by_index [OF styleFrame_all(2)])
qed

lemma itemText_slicerIndex:
  "itemText (StyleComboBox st) (slicerIndex st) =
     (if ''Slicer'' \<in> set (items (StyleComboBox st)) then ''Slicer'' else [])"
  by (simp add: slicerIndex_def itemText_found itemText_not_found)

lemma currentStyle_onStyleChanged_not_found:
  assumes "styleFactoryCreate e (libraryPaths st) n = None"
  shows "currentStyle (onStyleChanged e st n) =
     (if ''Slicer'' \<in> set (items (StyleComboBox st)) then ''Slicer'' else [])"
proof -
  have "currentIndex (StyleComboBox (onStyleChanged e st n)) = slicerIndex st"
    using assms by (simp add: finalIndex(1))
  then show ?thesis
    by (simp add: currentStyle_by_index [OF styleFrame_all(1)] itemText_slicerIndex)
qed

lemma trace_onStyleChanged_not_found:
  assumes "styleFactoryCreate e (libraryPaths st) n = None"
  shows "\<exists>rest. trace (onStyleChanged e st n) = trace st @ Warning (styleNotFound n) # rest
           \<and> (\<forall>ev \<in> set rest. styleEvent e (libraryPaths st) ev)"
proof -
  let ?stw = "st\<lparr>app_eventFilters := removeAll (app_style st) (app_eventFilters st),
                 trace := trace st @ [Warning (styleNotFound n)]\<rparr>"
  have "styleFrame e ?stw (setCurrentStyle e ?stw ''Slicer'')" by (rule styleFrame_all(2))
  then obtain tr where "trace (setCurrentStyle e ?stw ''Slicer'') = trace ?stw @ tr"
    "\<forall>ev \<in> set tr. styleEvent e (libraryPaths ?stw) ev"
    by (auto simp: styleFrame_def)
  then show ?thesis using assms by (simp add: onStyleChanged_not_found)
qed

lemma not_emitted_when_not_found:
  assumes "styleFactoryCreate e (libraryPaths st) n = None"
  shows "CurrentStyleChanged n \<notin> set (newEvents st (onStyleChanged e st n))"
proof -
  from trace_onStyleChanged_not_found [OF assms] obtain rest where
    r: "trace (onStyleChanged e st n) = trace st @ Warning (styleNotFound n) # rest"
    "\<forall>ev \<in> set rest. styleEvent e (libraryPaths st) ev" by blast
  have "CurrentStyleChanged n \<notin> set rest"
  proof
    assume "CurrentStyleChanged n \<in> set rest"
    with r(2) have "styleEvent e (libraryPaths st) (CurrentStyleChanged n)" by blast
    then show False using assms by (simp add: styleEvent_def)
  qed
  then show ?thesis using newEvents_append [OF r(1)] by simp
qed

subsection \<open>Initialisation\<close>

lemma populateStyles_bookkeeping:
  "Properties (populateStyles e st) = Properties st"
  "connections (populateStyles e st) = connections st"
  using populateStyles_frame [of e st] by (simp_all add: styleFrame_def)

lemma setCurrentStyle_bookkeeping:
  "Properties (setCurrentStyle e st n) = Properties st"
  "connections (setCurrentStyle e st n) = connections st"
  using styleFrame_all(2) [of e st n] by (simp_all add: styleFrame_def)

lemma Properties_init:
  "Properties (init e st) =
     (Properties st)
     (''no-tooltip'' \<mapsto> \<lparr>object = ObjShowToolTipsCheckBox, objectProperty = ''checked'',
         propertySignal = ''toggled(bool)'', extra = None\<rparr>,
      ''font'' \<mapsto> \<lparr>object = ObjFontButton, objectProperty = ''currentFont'',
         propertySignal = ''currentFontChanged(QFont)'', extra = None\<rparr>,
      ''MainWindow/ShowToolButtonText'' \<mapsto> \<lparr>object = ObjShowToolButtonTextCheckBox,
         objectProperty = ''checked'', propertySignal = ''toggled(bool)'', extra = None\<rparr>,
      ''MainWindow/RestoreGeometry'' \<mapsto> \<lparr>object = ObjRestoreUICheckBox,
         objectProperty = ''checked'', propertySignal = ''toggled(bool)'', extra = None\<rparr>,
      ''Styles/AdditionalPaths'' \<mapsto> \<lparr>object = ObjAdditionalStylePathsView,
         objectProperty = ''directoryList'', propertySignal = ''directoryListChanged()'',
         extra = Some (''Additional style paths'', OptionRequireRestart, RevisionUserSettings)\<rparr>,
      ''Styles/Style'' \<mapsto> \<lparr>object = ObjPanel, objectProperty = ''currentStyle'',
         propertySignal = ''currentStyleChanged(QString)'',
         extra = Some (''Current style'', OptionNone, RevisionUserSettings)\<rparr>)"
  by (simp add: init_def connect_def registerProperty_def
      populateStyles_bookkeeping setCurrentStyle_bookkeeping)

lemma connections_init:
  "connections (init e st) =
     connections st @
     [Connection ObjFontButton ''currentFontChanged(QFont)'' OnFontChanged,
      Connection ObjShowToolTipsCheckBox ''toggled(bool)'' OnShowToolTipsToggled,
      Connection ObjShowToolButtonTextCheckBox ''toggled(bool)'' OnShowToolButtonTextToggled,
      Connection ObjAdditionalStylePathsView ''directoryListChanged()''
        OnAdditionalStylePathsChanged,
      Connection ObjStyleComboBox ''currentIndexChanged(QString)'' OnStyleChanged,
      Connection ObjAddAdditionalStylePathButton ''clicked()'' OnAddStyleAdditionalPathClicked,
      Connection ObjRemoveAdditionalStylePathButton ''clicked()''
        OnRemoveStyleAdditionalPathClicked]"
  by (simp add: init_def connect_def registerProperty_def
      populateStyles_bookkeeping setCurrentStyle_bookkeeping)

lemma tooltip_bound:
  "Properties (qSlicerSettingsStylesPanel e st) ''no-tooltip'' =
     Some \<lparr>object = ObjShowToolTipsCheckBox, objectProperty = ''checked'',
         propertySignal = ''toggled(bool)'', extra = None\<rparr>"
  by (simp add: qSlicerSettingsStylesPanel_def Properties_init)

lemma tooltip_connected:
  "Connection ObjShowToolTipsCheckBox ''toggled(bool)'' OnShowToolTipsToggled
     \<in> set (connections (qSlicerSettingsStylesPanel e st))"
  by (simp add: qSlicerSettingsStylesPanel_def connections_init)

lemma toggled_on_panel:
  "ShowToolTipsCheckBox_toggled b (qSlicerSettingsStylesPanel e st) =
     (qSlicerSettingsStylesPanel e st)\<lparr>ShowToolTipsCheckBox := b, app_toolTipsEnabled := \<not> b\<rparr>"
  using tooltip_connected [of e st]
  by (simp add: ShowToolTipsCheckBox_toggled_def onShowToolTipsToggled_def Let_def)

lemma read_of_install_path:
  "SettingsValueRead RevisionUserSettings ''Extensions/InstallPath''
     \<in> set (newEvents st (onAddStyleAdditionalPathClicked e st))"
proof -
  let ?ev = "SettingsValueRead RevisionUserSettings ''Extensions/InstallPath''"
  let ?st1 = "st\<lparr>trace := trace st @ [?ev]\<rparr>"
  have "\<exists>tr. trace (onAddStyleAdditionalPathClicked e st) = trace st @ ?ev # tr"
  proof (cases "getExistingDirectory e (revisionUserSettingsValue e ''Extensions/InstallPath'') = []")
    case True
    then show ?thesis by (simp add: onAddStyleAdditionalPathClicked_def)
  next
    case False
    let ?r = "AdditionalStylePathsView_changed e ?st1
        (addDirectory e (getExistingDirectory e (revisionUserSettingsValue e ''Extensions/InstallPath''))
           (AdditionalStylePathsView ?st1))"
    from traceExtends_view_changed [of e ?st1] obtain tr where "trace ?r = trace ?st1 @ tr"
      unfolding traceExtends_def by blast
    then show ?thesis using False by (simp add: onAddStyleAdditionalPathClicked_def Let_def)
  qed
  then obtain tr where "trace (onAddStyleAdditionalPathClicked e st) = trace st @ ?ev # tr" by blast
  from newEvents_append [OF this] show ?thesis by simp
qed




subsection \<open>Warnings\<close>



subsection \<open>A change of the additional paths\<close>



section \<open>The properties of the specification\<close>

subsection \<open>Cancelling the file dialog\<close>

text \<open>
  C9: if the user cancels the file dialog of the add-path button (the path it returns is
  empty), \<^verbatim>\<open>onAddStyleAdditionalPathClicked\<close> returns without adding a directory: the rows of
  the directory list view and every other part of the panel and of the application stay as
  they were; the only effect is the read of the key "Extensions/InstallPath" that precedes
  the dialog.
\<close>

theorem onAddStyleAdditionalPathClicked_cancelled:
  assumes "getExistingDirectory e (revisionUserSettingsValue e ''Extensions/InstallPath'') = []"
  shows "AdditionalStylePathsView (onAddStyleAdditionalPathClicked e st)
           = AdditionalStylePathsView st
    \<and> onAddStyleAdditionalPathClicked e st =
        st\<lparr>trace := trace st
             @ [SettingsValueRead RevisionUserSettings ''Extensions/InstallPath'']\<rparr>"
  using assms by (simp add: onAddStyleAdditionalPathClicked_def)

theorem onAddStyleAdditionalPathClicked_cancelled_witness:
  "getExistingDirectory demoEnv
     (revisionUserSettingsValue demoEnv ''Extensions/InstallPath'') = []
   \<and> AdditionalStylePathsView (onAddStyleAdditionalPathClicked demoEnv demoPanel)
       = AdditionalStylePathsView demoPanel
   \<and> onAddStyleAdditionalPathClicked demoEnv demoPanel =
        demoPanel\<lparr>trace := trace demoPanel
             @ [SettingsValueRead RevisionUserSettings ''Extensions/InstallPath'']\<rparr>"
proof -
  have h: "getExistingDirectory demoEnv
             (revisionUserSettingsValue demoEnv ''Extensions/InstallPath'') = []"
    by (simp add: demoEnv_def)
  show ?thesis
    using h onAddStyleAdditionalPathClicked_cancelled [OF h, of demoPanel] by simp
qed

subsection \<open>The content of the combo box\<close>



subsection \<open>A style that cannot be created\<close>

text \<open>
  C1, as the code has it: when \<^verbatim>\<open>onStyleChanged\<close> is invoked with a name for which no style
  can be created, the panel writes the warning for that name and selects "Slicer" in the
  combo box, so that the current style is "Slicer" if the combo box lists it and empty
  otherwise; it emits no \<^verbatim>\<open>currentStyleChanged\<close> for that name. For every name for which a
  style is created, that style becomes the style of the application, with its event filter
  and its standard palette, and \<^verbatim>\<open>currentStyleChanged\<close> is emitted once, with that name.
\<close>

theorem onStyleChanged_unknown_and_known:
  "(styleFactoryCreate e (libraryPaths st) name = None \<longrightarrow>
      (\<exists>rest. trace (onStyleChanged e st name)
                = trace st @ Warning (styleNotFound name) # rest)
      \<and> currentStyle (onStyleChanged e st name) =
          (if ''Slicer'' \<in> set (items (StyleComboBox st)) then ''Slicer'' else [])
      \<and> CurrentStyleChanged name \<notin> set (newEvents st (onStyleChanged e st name)))
   \<and> (\<forall>s. styleFactoryCreate e (libraryPaths st) name = Some s \<longrightarrow>
        app_style (onStyleChanged e st name) = s
        \<and> newEvents st (onStyleChanged e st name) = [CurrentStyleChanged name]
        \<and> onStyleChanged e st name =
            st\<lparr>app_eventFilters :=
                 s # removeAll s (removeAll (app_style st) (app_eventFilters st)),
               app_style := s, app_palette := StandardPalette s,
               trace := trace st @ [CurrentStyleChanged name]\<rparr>)"
proof (intro conjI impI allI)
  assume n: "styleFactoryCreate e (libraryPaths st) name = None"
  show "\<exists>rest. trace (onStyleChanged e st name) = trace st @ Warning (styleNotFound name) # rest"
    using trace_onStyleChanged_not_found [OF n] by blast
  show "currentStyle (onStyleChanged e st name) =
          (if ''Slicer'' \<in> set (items (StyleComboBox st)) then ''Slicer'' else [])"
    by (rule currentStyle_onStyleChanged_not_found [OF n])
  show "CurrentStyleChanged name \<notin> set (newEvents st (onStyleChanged e st name))"
    by (rule not_emitted_when_not_found [OF n])
next
  fix s assume s: "styleFactoryCreate e (libraryPaths st) name = Some s"
  show "app_style (onStyleChanged e st name) = s"
    by (simp add: onStyleChanged_found [OF s])
  show "newEvents st (onStyleChanged e st name) = [CurrentStyleChanged name]"
    by (simp add: onStyleChanged_found [OF s] newEvents_def)
  show "onStyleChanged e st name =
            st\<lparr>app_eventFilters :=
                 s # removeAll s (removeAll (app_style st) (app_eventFilters st)),
               app_style := s, app_palette := StandardPalette s,
               trace := trace st @ [CurrentStyleChanged name]\<rparr>"
    by (rule onStyleChanged_found [OF s])
qed

theorem onStyleChanged_unknown_and_known_witness:
  "styleFactoryCreate demoEnv (libraryPaths demoPanel) ''Nope'' = None
   \<and> ''Slicer'' \<in> set (items (StyleComboBox demoPanel))
   \<and> currentStyle (onStyleChanged demoEnv demoPanel ''Nope'') = ''Slicer''
   \<and> CurrentStyleChanged ''Nope'' \<notin> set (newEvents demoPanel (onStyleChanged demoEnv demoPanel ''Nope''))
   \<and> styleFactoryCreate demoEnv (libraryPaths demoPanel) ''Fusion'' = Some (QStyle ''fusion'')
   \<and> app_style (onStyleChanged demoEnv demoPanel ''Fusion'') = QStyle ''fusion''
   \<and> newEvents demoPanel (onStyleChanged demoEnv demoPanel ''Fusion'') = [CurrentStyleChanged ''Fusion'']"
proof -
  have h: "styleFactoryCreate demoEnv (libraryPaths demoPanel) ''Nope'' = None"
    "''Slicer'' \<in> set (items (StyleComboBox demoPanel))"
    "styleFactoryCreate demoEnv (libraryPaths demoPanel) ''Fusion'' = Some (QStyle ''fusion'')"
    by code_simp+
  show ?thesis
    using h onStyleChanged_unknown_and_known [of demoEnv demoPanel "''Nope''"]
      onStyleChanged_unknown_and_known [of demoEnv demoPanel "''Fusion''"]
    by (simp add: newEvents_def)
qed

text \<open>
  Two things the fallback does beyond selecting "Slicer" silently. On a panel showing
  "Fusion", the unknown name "Nope" makes the combo box change to "Slicer", which runs the
  slot again and emits \<^verbatim>\<open>currentStyleChanged\<close> for "Slicer"; and on a panel whose combo box
  does not list "Slicer" the current style ends empty.
\<close>

theorem onStyleChanged_fallback_counterexample:
  "styleFactoryCreate demoEnv (libraryPaths fusionPanel) ''Nope'' = None
   \<and> newEvents fusionPanel (onStyleChanged demoEnv fusionPanel ''Nope'')
       = [Warning (styleNotFound ''Nope''), CurrentStyleChanged ''Slicer'']
   \<and> styleFactoryCreate demoEnv (libraryPaths barePanel) ''Nope'' = None
   \<and> currentStyle (onStyleChanged demoEnv barePanel ''Nope'') = []
   \<and> currentStyle (onStyleChanged demoEnv barePanel ''Nope'') \<noteq> ''Slicer''"
  by code_simp

subsection \<open>Setting and reading the current style\<close>

text \<open>
  C8, as the code has it: for every style name present in the combo box for which a style can
  be created, \<^verbatim>\<open>currentStyle\<close> after \<^verbatim>\<open>setCurrentStyle\<close> of that name returns the name; for
  every name not present, it returns "Slicer", provided "Slicer" is present in the combo box.
\<close>

theorem setCurrentStyle_currentStyle:
  "(s \<in> set (items (StyleComboBox st)) \<and> styleFactoryCreate e (libraryPaths st) s \<noteq> None
      \<longrightarrow> currentStyle (setCurrentStyle e st s) = s)
   \<and> (s \<notin> set (items (StyleComboBox st)) \<and> ''Slicer'' \<in> set (items (StyleComboBox st))
      \<longrightarrow> currentStyle (setCurrentStyle e st s) = ''Slicer'')"
  by (simp add: currentStyle_setCurrentStyle_creatable currentStyle_setCurrentStyle_absent
      itemText_slicerIndex)

theorem setCurrentStyle_currentStyle_witness:
  "''Fusion'' \<in> set (items (StyleComboBox demoPanel))
   \<and> styleFactoryCreate demoEnv (libraryPaths demoPanel) ''Fusion'' \<noteq> None
   \<and> currentStyle demoPanel = ''Slicer''
   \<and> currentStyle (setCurrentStyle demoEnv demoPanel ''Fusion'') = ''Fusion''
   \<and> ''Nope'' \<notin> set (items (StyleComboBox fusionPanel))
   \<and> ''Slicer'' \<in> set (items (StyleComboBox fusionPanel))
   \<and> currentStyle fusionPanel = ''Fusion''
   \<and> currentStyle (setCurrentStyle demoEnv fusionPanel ''Nope'') = ''Slicer''"
proof -
  have h: "''Fusion'' \<in> set (items (StyleComboBox demoPanel))"
    "styleFactoryCreate demoEnv (libraryPaths demoPanel) ''Fusion'' \<noteq> None"
    "currentStyle demoPanel = ''Slicer''"
    "''Nope'' \<notin> set (items (StyleComboBox fusionPanel))"
    "''Slicer'' \<in> set (items (StyleComboBox fusionPanel))"
    "currentStyle fusionPanel = ''Fusion''"
    by code_simp+
  show ?thesis
    using h setCurrentStyle_currentStyle [of "''Fusion''" demoPanel demoEnv]
      setCurrentStyle_currentStyle [of "''Nope''" fusionPanel demoEnv]
    by simp
qed

text \<open>
  "Dark" is listed in the combo box of the example, but no style can be created for it:
  selecting it runs \<^verbatim>\<open>onStyleChanged\<close>, which falls back to "Slicer".
\<close>

theorem setCurrentStyle_listed_style_counterexample:
  "''Dark'' \<in> set (items (StyleComboBox demoPanel))
   \<and> currentStyle (setCurrentStyle demoEnv demoPanel ''Dark'') = ''Slicer''
   \<and> currentStyle (setCurrentStyle demoEnv demoPanel ''Dark'') \<noteq> ''Dark''"
  by code_simp

subsection \<open>The tooltip preference\<close>

text \<open>
  C3, as the code has it: the panel keeps a tooltip flag among its named preference values,
  under the key "no-tooltip" bound to the property "checked" of the check box. The value
  stored says whether tooltips are disabled: when the check box is toggled to a value, that
  value is stored and the tooltips of the application are enabled exactly when the value is
  false.
\<close>

theorem tooltip_preference:
  "app_toolTipsEnabled (onShowToolTipsToggled b st) = (\<not> b)
   \<and> app_toolTipsEnabled (ShowToolTipsCheckBox_toggled b (qSlicerSettingsStylesPanel e st))
       = (\<not> b)
   \<and> settingValue (ShowToolTipsCheckBox_toggled b (qSlicerSettingsStylesPanel e st))
        ''no-tooltip'' = Some (VBool b)"
  using tooltip_bound [of e st]
  by (simp add: toggled_on_panel settingValue_def propertyValue_def onShowToolTipsToggled_def)

text \<open>
  Checking the box stores true and disables the tooltips, so the stored value is not
  whether tooltips are enabled, and toggling to true does not enable them.
\<close>

theorem tooltip_preference_counterexample:
  "app_toolTipsEnabled (ShowToolTipsCheckBox_toggled True demoPanel) = False
   \<and> settingValue (ShowToolTipsCheckBox_toggled True demoPanel) ''no-tooltip''
       = Some (VBool True)
   \<and> settingValue (ShowToolTipsCheckBox_toggled True demoPanel) ''no-tooltip''
       \<noteq> Some (VBool (app_toolTipsEnabled (ShowToolTipsCheckBox_toggled True demoPanel)))"
  using tooltip_bound [of demoEnv blankState]
  by (simp add: demoPanel_def toggled_on_panel settingValue_def propertyValue_def)

subsection \<open>The registered keys\<close>

text \<open>
  C4, as the code has it: the constructed panel has registered exactly six keys, "no-tooltip",
  "font", "MainWindow/ShowToolButtonText", "MainWindow/RestoreGeometry",
  "Styles/AdditionalPaths" and "Styles/Style", each bound to the property of the widget (or of
  the panel) that \<^verbatim>\<open>init\<close> names. They are not all the keys the panel uses:
  \<^verbatim>\<open>onAddStyleAdditionalPathClicked\<close> reads "Extensions/InstallPath", which is not registered.
\<close>

theorem registered_properties:
  "Properties (qSlicerSettingsStylesPanel e st) =
     [''no-tooltip'' \<mapsto> \<lparr>object = ObjShowToolTipsCheckBox, objectProperty = ''checked'',
         propertySignal = ''toggled(bool)'', extra = None\<rparr>,
      ''font'' \<mapsto> \<lparr>object = ObjFontButton, objectProperty = ''currentFont'',
         propertySignal = ''currentFontChanged(QFont)'', extra = None\<rparr>,
      ''MainWindow/ShowToolButtonText'' \<mapsto> \<lparr>object = ObjShowToolButtonTextCheckBox,
         objectProperty = ''checked'', propertySignal = ''toggled(bool)'', extra = None\<rparr>,
      ''MainWindow/RestoreGeometry'' \<mapsto> \<lparr>object = ObjRestoreUICheckBox,
         objectProperty = ''checked'', propertySignal = ''toggled(bool)'', extra = None\<rparr>,
      ''Styles/AdditionalPaths'' \<mapsto> \<lparr>object = ObjAdditionalStylePathsView,
         objectProperty = ''directoryList'', propertySignal = ''directoryListChanged()'',
         extra = Some (''Additional style paths'', OptionRequireRestart, RevisionUserSettings)\<rparr>,
      ''Styles/Style'' \<mapsto> \<lparr>object = ObjPanel, objectProperty = ''currentStyle'',
         propertySignal = ''currentStyleChanged(QString)'',
         extra = Some (''Current style'', OptionNone, RevisionUserSettings)\<rparr>]
   \<and> dom (Properties (qSlicerSettingsStylesPanel e st)) =
       {''no-tooltip'', ''font'', ''MainWindow/ShowToolButtonText'',
        ''MainWindow/RestoreGeometry'', ''Styles/AdditionalPaths'', ''Styles/Style''}
   \<and> SettingsValueRead RevisionUserSettings ''Extensions/InstallPath''
       \<in> set (newEvents (qSlicerSettingsStylesPanel e st)
                (onAddStyleAdditionalPathClicked e (qSlicerSettingsStylesPanel e st)))
   \<and> ''Extensions/InstallPath'' \<notin> dom (Properties (qSlicerSettingsStylesPanel e st))"
proof -
  have p: "Properties (qSlicerSettingsStylesPanel e st) =
     [''no-tooltip'' \<mapsto> \<lparr>object = ObjShowToolTipsCheckBox, objectProperty = ''checked'',
         propertySignal = ''toggled(bool)'', extra = None\<rparr>,
      ''font'' \<mapsto> \<lparr>object = ObjFontButton, objectProperty = ''currentFont'',
         propertySignal = ''currentFontChanged(QFont)'', extra = None\<rparr>,
      ''MainWindow/ShowToolButtonText'' \<mapsto> \<lparr>object = ObjShowToolButtonTextCheckBox,
         objectProperty = ''checked'', propertySignal = ''toggled(bool)'', extra = None\<rparr>,
      ''MainWindow/RestoreGeometry'' \<mapsto> \<lparr>object = ObjRestoreUICheckBox,
         objectProperty = ''checked'', propertySignal = ''toggled(bool)'', extra = None\<rparr>,
      ''Styles/AdditionalPaths'' \<mapsto> \<lparr>object = ObjAdditionalStylePathsView,
         objectProperty = ''directoryList'', propertySignal = ''directoryListChanged()'',
         extra = Some (''Additional style paths'', OptionRequireRestart, RevisionUserSettings)\<rparr>,
      ''Styles/Style'' \<mapsto> \<lparr>object = ObjPanel, objectProperty = ''currentStyle'',
         propertySignal = ''currentStyleChanged(QString)'',
         extra = Some (''Current style'', OptionNone, RevisionUserSettings)\<rparr>]"
    by (simp add: qSlicerSettingsStylesPanel_def Properties_init)
  have d: "dom (Properties (qSlicerSettingsStylesPanel e st)) =
       {''no-tooltip'', ''font'', ''MainWindow/ShowToolButtonText'',
        ''MainWindow/RestoreGeometry'', ''Styles/AdditionalPaths'', ''Styles/Style''}"
    unfolding p by auto
  have n: "''Extensions/InstallPath'' \<notin> dom (Properties (qSlicerSettingsStylesPanel e st))"
    unfolding d by simp
  show ?thesis
    by (intro conjI) (rule p d n read_of_install_path)+
qed

text \<open>
  On the example panel the add-path button reads a key that the panel never registered.
\<close>

theorem registered_keys_counterexample:
  "SettingsValueRead RevisionUserSettings ''Extensions/InstallPath''
     \<in> set (newEvents demoPanel (onAddStyleAdditionalPathClicked demoEnv demoPanel))
   \<and> ''Extensions/InstallPath'' \<notin> dom (Properties demoPanel)"
proof -
  have "Properties demoPanel ''Extensions/InstallPath'' = None"
    by (simp add: demoPanel_def qSlicerSettingsStylesPanel_def Properties_init)
  then show ?thesis using read_of_install_path [of demoPanel demoEnv] by (simp add: domIff)
qed

subsection \<open>A change of the additional style paths\<close>




subsection \<open>No other error path\<close>



end
